theory Spec2Isabelle
  imports Main
begin

section \<open>Values shared by both components\<close>

text \<open>
  The \<^verbatim>\<open>Document\<close> interface of \<^verbatim>\<open>DocumentList.tsx\<close>. The field \<^verbatim>\<open>id\<close> is
  called \<open>doc_id\<close> here, \<open>id\<close> being the identity function of HOL; \<^verbatim>\<open>string | null\<close>
  is \<open>string option\<close>.
\<close>

record document =
  doc_id :: int
  filename :: string
  status :: string
  documentType :: "string option"
  extractedText :: "string option"
  createdAt :: string
  processedAt :: "string option"

text \<open>
  What a \<^verbatim>\<open>catch\<close> clause can receive. Both components only ask whether the value is an
  \<^verbatim>\<open>instanceof Error\<close>, and read its \<^verbatim>\<open>message\<close> when it is.
\<close>

datatype thrown = Error string | NonError

text \<open>
  The outcome of one \<^verbatim>\<open>await fetch(...)\<close>: the promise rejects (network failure), or it
  resolves to a response with its \<^verbatim>\<open>ok\<close> flag, its \<^verbatim>\<open>statusText\<close> and the outcome of
  \<^verbatim>\<open>await response.json()\<close>, which throws on a body that is not JSON.
\<close>

datatype 'a response = Response (ok: bool) (statusText: string) (json: "thrown + 'a")

datatype 'a fetch_outcome = Rejected thrown | Fulfilled "'a response"

section \<open>FileUpload.tsx: the upload submitter\<close>

text \<open>The three properties of a browser \<^verbatim>\<open>File\<close> the component reads.\<close>

record File =
  file_name :: string
  file_type :: string
  file_size :: nat

text \<open>For each optional callback prop: is it given?\<close>

record file_upload_props =
  onUploadSuccess :: bool
  onUploadError :: bool

record file_upload =
  isDragging :: bool
  isUploading :: bool
  uploadProgress :: string

definition SUPPORTED_TYPES :: "string list" where
  "SUPPORTED_TYPES = [''image/jpeg'', ''image/png'', ''image/jpg'', ''application/pdf'']"

definition MAX_FILE_SIZE :: nat where
  "MAX_FILE_SIZE = 20 * 1024 * 1024"

text \<open>
  \<^verbatim>\<open>validateFile\<close> returns \<^verbatim>\<open>null\<close> for a file it accepts and a message otherwise:
  one message for a type that is not supported, another for a file that is too large.
  \<^verbatim>\<open>file.size\<close> is a number of bytes.
\<close>

definition validateFile :: "File \<Rightarrow> string option" where
  "validateFile f =
     (if file_type f \<notin> set SUPPORTED_TYPES
      then Some ''Unsupported file type. Please upload JPG, PNG, or PDF.''
      else if file_size f > MAX_FILE_SIZE
      then Some ''File is too large. Maximum size is 20MB.''
      else None)"

text \<open>
  What \<^verbatim>\<open>uploadFile\<close> does to the world outside the component, in the order it does it:
  the POST request carrying the file, the calls of the two callback props, and the timer
  of the cosmetic reset.
\<close>

datatype upload_effect =
    POST_documents File
  | Call_onUploadSuccess document
  | Call_onUploadError string
  | SetTimeout_reset nat

fun network_requests :: "upload_effect list \<Rightarrow> File list" where
  "network_requests [] = []"
| "network_requests (POST_documents f # es) = f # network_requests es"
| "network_requests (_ # es) = network_requests es"

text \<open>The body of the \<^verbatim>\<open>try\<close> block up to \<^verbatim>\<open>response.json()\<close>: the data, or what was thrown.\<close>

definition upload_try :: "document fetch_outcome \<Rightarrow> thrown + document" where
  "upload_try net =
     (case net of
        Rejected e \<Rightarrow> Inl e
      | Fulfilled r \<Rightarrow>
          if \<not> ok r then Inl (Error (''Upload failed: '' @ statusText r))
          else json r)"

definition uploadFile ::
  "file_upload_props \<Rightarrow> File \<Rightarrow> document fetch_outcome \<Rightarrow> file_upload
     \<Rightarrow> file_upload \<times> upload_effect list" where
  "uploadFile p f net s =
     (case validateFile f of
        Some validationError \<Rightarrow>
          (s, if onUploadError p then [Call_onUploadError validationError] else [])
      | None \<Rightarrow>
          (let s1 = s\<lparr>isUploading := True,
                      uploadProgress := ''Uploading '' @ file_name f @ ''...''\<rparr>
           in case upload_try net of
                Inr data \<Rightarrow>
                  (s1\<lparr>uploadProgress := ''Upload successful!''\<rparr>,
                   [POST_documents f]
                   @ (if onUploadSuccess p then [Call_onUploadSuccess data] else [])
                   @ [SetTimeout_reset 2000])
              | Inl err \<Rightarrow>
                  (s1\<lparr>uploadProgress := [], isUploading := False\<rparr>,
                   [POST_documents f]
                   @ (if onUploadError p
                      then [Call_onUploadError
                              (case err of Error m \<Rightarrow> m | NonError \<Rightarrow> ''Upload failed'')]
                      else []))))"

section \<open>DocumentList.tsx: the document synchronizer\<close>

text \<open>
  The props of the component. \<^verbatim>\<open>refreshTrigger?: number\<close> is a counter, an integer
  here, and \<open>None\<close> when the prop is not given (\<^verbatim>\<open>undefined\<close>); for the callback
  \<^verbatim>\<open>onDocumentClick\<close> the record says whether it is given.
\<close>

record document_list_props =
  refreshTrigger :: "int option"
  onDocumentClick :: bool

text \<open>
  One instance of the component: its four state cells, and what the runtime keeps for
  it: whether it is mounted, the props of the last render, the period of the interval
  timer while one is set, the number of \<^verbatim>\<open>GET /documents\<close> requests issued so far and
  the calls made to the \<^verbatim>\<open>onDocumentClick\<close> prop.
\<close>

record document_list =
  documents :: "document list"
  loading :: bool
  error :: string
  selectedDocument :: "document option"
  mounted :: bool
  props :: document_list_props
  interval :: "nat option"
  requests :: nat
  clicked :: "document list"

text \<open>
  The setters of \<^verbatim>\<open>useState\<close>. An update addressed to a component that has been
  unmounted is dropped by React: the call returns and changes nothing.
\<close>

definition setDocuments :: "document list \<Rightarrow> document_list \<Rightarrow> document_list" where
  "setDocuments v s = (if mounted s then s\<lparr>documents := v\<rparr> else s)"

definition setLoading :: "bool \<Rightarrow> document_list \<Rightarrow> document_list" where
  "setLoading v s = (if mounted s then s\<lparr>loading := v\<rparr> else s)"

definition setError :: "string \<Rightarrow> document_list \<Rightarrow> document_list" where
  "setError v s = (if mounted s then s\<lparr>error := v\<rparr> else s)"

definition setSelectedDocument :: "document option \<Rightarrow> document_list \<Rightarrow> document_list" where
  "setSelectedDocument v s = (if mounted s then s\<lparr>selectedDocument := v\<rparr> else s)"

text \<open>
  \<^verbatim>\<open>fetchDocuments\<close> runs in two parts, with the \<^verbatim>\<open>await\<close> between them: up to the
  request, and from the response on. The second part is a \<^verbatim>\<open>try\<close> block, whose result
  is the new state or what was thrown, its \<^verbatim>\<open>catch\<close> and its \<^verbatim>\<open>finally\<close>.
\<close>

definition fetchDocuments_start :: "document_list \<Rightarrow> document_list" where
  "fetchDocuments_start s = (setLoading True s)\<lparr>requests := requests s + 1\<rparr>"

definition fetchDocuments_try ::
  "document list fetch_outcome \<Rightarrow> document_list \<Rightarrow> thrown + document_list" where
  "fetchDocuments_try net s =
     (case net of
        Rejected e \<Rightarrow> Inl e
      | Fulfilled r \<Rightarrow>
          if \<not> ok r then Inl (Error ''Failed to fetch documents'')
          else (case json r of
                  Inl e \<Rightarrow> Inl e
                | Inr data \<Rightarrow> Inr (setError [] (setDocuments data s))))"

definition fetchDocuments_catch :: "thrown \<Rightarrow> document_list \<Rightarrow> document_list" where
  "fetchDocuments_catch err s =
     setError (case err of Error m \<Rightarrow> m | NonError \<Rightarrow> ''Failed to load documents'') s"

definition fetchDocuments_settle ::
  "document list fetch_outcome \<Rightarrow> document_list \<Rightarrow> thrown + document_list" where
  "fetchDocuments_settle net s =
     (case fetchDocuments_try net s of
        Inr s' \<Rightarrow> Inr (setLoading False s')
      | Inl err \<Rightarrow> Inr (setLoading False (fetchDocuments_catch err s)))"

definition fetchDocuments ::
  "document list fetch_outcome \<Rightarrow> document_list \<Rightarrow> thrown + document_list" where
  "fetchDocuments net s = fetchDocuments_settle net (fetchDocuments_start s)"

text \<open>
  A fetch that failed by a network error or by a response outside 2xx, and the message
  the \<^verbatim>\<open>catch\<close> clause derives from such a failure.
\<close>

fun fetch_failed :: "'a fetch_outcome \<Rightarrow> bool" where
  "fetch_failed (Rejected e) = True"
| "fetch_failed (Fulfilled r) = (\<not> ok r)"

fun failure_message :: "'a fetch_outcome \<Rightarrow> string" where
  "failure_message (Rejected (Error m)) = m"
| "failure_message (Rejected NonError) = ''Failed to load documents''"
| "failure_message (Fulfilled r) = ''Failed to fetch documents''"

text \<open>JavaScript's truthiness of a \<^verbatim>\<open>number | undefined\<close>.\<close>

fun truthy :: "int option \<Rightarrow> bool" where
  "truthy None = False"
| "truthy (Some n) = (n \<noteq> 0)"

text \<open>The body of the effect whose dependency list is \<^verbatim>\<open>[refreshTrigger]\<close>.\<close>

definition refreshTrigger_effect :: "document_list_props \<Rightarrow> document_list \<Rightarrow> document_list" where
  "refreshTrigger_effect p s = (if truthy (refreshTrigger p) then fetchDocuments_start s else s)"

text \<open>
  The first render and the three effects after it, in the order of the source: the
  initial fetch, the trigger effect, the interval.
\<close>

definition mount :: "document_list_props \<Rightarrow> document_list" where
  "mount p =
     (let s0 = \<lparr>documents = [], loading = True, error = [], selectedDocument = None,
                mounted = True, props = p, interval = None, requests = 0, clicked = []\<rparr>;
          s1 = fetchDocuments_start s0;
          s2 = refreshTrigger_effect p s1
      in s2\<lparr>interval := Some 5000\<rparr>)"

text \<open>
  A later render with props \<open>p\<close>: an effect runs again when one of its dependencies
  differs from its value at the last render. The two effects with the dependency list
  \<^verbatim>\<open>[]\<close> never run again.
\<close>

definition rerender :: "document_list_props \<Rightarrow> document_list \<Rightarrow> document_list" where
  "rerender p s =
     (if \<not> mounted s then s
      else if refreshTrigger p \<noteq> refreshTrigger (props s)
      then refreshTrigger_effect p (s\<lparr>props := p\<rparr>)
      else s\<lparr>props := p\<rparr>)"

text \<open>The callback of \<^verbatim>\<open>setInterval\<close> runs when the timer fires, and the timer fires
  only while it is set.\<close>

definition tick :: "document_list \<Rightarrow> document_list" where
  "tick s = (case interval s of None \<Rightarrow> s | Some _ \<Rightarrow> fetchDocuments_start s)"

text \<open>Unmounting runs the cleanup of the interval effect, \<^verbatim>\<open>clearInterval(interval)\<close>;
  the other two effects return none.\<close>

definition unmount :: "document_list \<Rightarrow> document_list" where
  "unmount s = s\<lparr>interval := None, mounted := False\<rparr>"

definition getStatusClass :: "string \<Rightarrow> string" where
  "getStatusClass st =
     (if st = ''COMPLETED'' then ''status-completed''
      else if st = ''PROCESSING'' then ''status-processing''
      else if st = ''FAILED'' then ''status-failed''
      else if st = ''PENDING'' then ''status-pending''
      else ''status-pending'')"

text \<open>The four glyphs are U+2713, U+23F3, U+2717 and U+23F1, written as the bytes of
  their UTF-8 encoding, as they stand in the source file.\<close>

definition getStatusIcon :: "string \<Rightarrow> string" where
  "getStatusIcon st =
     (if st = ''COMPLETED'' then [CHR 0xE2, CHR 0x9C, CHR 0x93]
      else if st = ''PROCESSING'' then [CHR 0xE2, CHR 0x8F, CHR 0xB3]
      else if st = ''FAILED'' then [CHR 0xE2, CHR 0x9C, CHR 0x97]
      else if st = ''PENDING'' then [CHR 0xE2, CHR 0x8F, CHR 0xB1]
      else [CHR 0xE2, CHR 0x8F, CHR 0xB1])"

definition handleRowClick :: "document \<Rightarrow> document_list \<Rightarrow> document_list" where
  "handleRowClick d s =
     (let s1 = setSelectedDocument (Some d) s
      in if onDocumentClick (props s) then s1\<lparr>clicked := clicked s1 @ [d]\<rparr> else s1)"

definition closeDetail :: "document_list \<Rightarrow> document_list" where
  "closeDetail s = setSelectedDocument None s"

section \<open>App.tsx: how the two components are wired\<close>

record app =
  app_documents :: "document list"
  app_error :: string

definition handleUploadSuccess :: "document \<Rightarrow> app \<Rightarrow> app" where
  "handleUploadSuccess d a = a\<lparr>app_documents := d # app_documents a, app_error := []\<rparr>"

definition handleUploadError :: "string \<Rightarrow> app \<Rightarrow> app" where
  "handleUploadError errorMsg a = a\<lparr>app_error := errorMsg\<rparr>"

text \<open>The props \<^verbatim>\<open>App\<close> renders its two children with: both callbacks for
  \<^verbatim>\<open>FileUpload\<close>, nothing for \<^verbatim>\<open>DocumentList\<close>.\<close>

definition App_FileUpload_props :: "app \<Rightarrow> file_upload_props" where
  "App_FileUpload_props a = \<lparr>onUploadSuccess = True, onUploadError = True\<rparr>"

definition App_DocumentList_props :: "app \<Rightarrow> document_list_props" where
  "App_DocumentList_props a = \<lparr>refreshTrigger = None, onDocumentClick = False\<rparr>"

text \<open>The callbacks \<^verbatim>\<open>App\<close> passed to \<^verbatim>\<open>FileUpload\<close>, run on what an upload did.\<close>

fun App_callbacks :: "upload_effect list \<Rightarrow> app \<Rightarrow> app" where
  "App_callbacks [] a = a"
| "App_callbacks (Call_onUploadSuccess d # es) a = App_callbacks es (handleUploadSuccess d a)"
| "App_callbacks (Call_onUploadError m # es) a = App_callbacks es (handleUploadError m a)"
| "App_callbacks (_ # es) a = App_callbacks es a"

section \<open>Status classification\<close>

text \<open>
  C7. The display class and the glyph of a status are fixed for each of the four enum
  values, and every status string other than COMPLETED, PROCESSING and FAILED, known
  or not, gets the class and the glyph of PENDING.
\<close>

theorem status_fallback_is_pending:
  "getStatusClass ''COMPLETED'' = ''status-completed'' \<and>
   getStatusClass ''PROCESSING'' = ''status-processing'' \<and>
   getStatusClass ''FAILED'' = ''status-failed'' \<and>
   getStatusClass ''PENDING'' = ''status-pending'' \<and>
   getStatusIcon ''COMPLETED'' = [CHR 0xE2, CHR 0x9C, CHR 0x93] \<and>
   getStatusIcon ''PROCESSING'' = [CHR 0xE2, CHR 0x8F, CHR 0xB3] \<and>
   getStatusIcon ''FAILED'' = [CHR 0xE2, CHR 0x9C, CHR 0x97] \<and>
   getStatusIcon ''PENDING'' = [CHR 0xE2, CHR 0x8F, CHR 0xB1] \<and>
   (st \<notin> {''COMPLETED'', ''PROCESSING'', ''FAILED''} \<longrightarrow>
      getStatusClass st = getStatusClass ''PENDING'' \<and>
      getStatusIcon st = getStatusIcon ''PENDING'')"
  by (simp add: getStatusClass_def getStatusIcon_def)

theorem status_fallback_is_pending_witness:
  "''ARCHIVED'' \<notin> {''COMPLETED'', ''PROCESSING'', ''FAILED''} \<and>
   getStatusClass ''ARCHIVED'' = ''status-pending'' \<and>
   getStatusIcon ''ARCHIVED'' = [CHR 0xE2, CHR 0x8F, CHR 0xB1]"
  using status_fallback_is_pending [of "''ARCHIVED''"] by simp

section \<open>Upload validation\<close>

lemma SUPPORTED_TYPES_set:
  "set SUPPORTED_TYPES = {''image/jpeg'', ''image/png'', ''image/jpg'', ''application/pdf''}"
  by (auto simp: SUPPORTED_TYPES_def)

lemma validateFile_None_iff:
  "validateFile f = None \<longleftrightarrow>
     file_type f \<in> set SUPPORTED_TYPES \<and> file_size f \<le> MAX_FILE_SIZE"
  by (simp add: validateFile_def not_less)

lemma uploadFile_invalid:
  "validateFile f = Some m \<Longrightarrow>
     uploadFile p f net s = (s, if onUploadError p then [Call_onUploadError m] else [])"
  by (simp add: uploadFile_def)

lemma uploadFile_valid_requests:
  "validateFile f = None \<Longrightarrow> network_requests (snd (uploadFile p f net s)) = [f]"
  by (simp add: uploadFile_def Let_def split: sum.splits)

text \<open>
  C5. Validation reads the MIME type and the byte size of the file and nothing else, and
  checks the type first: a file whose type is not in the supported list is refused with
  the unsupported-type message, whatever its size, the message goes to the error callback
  (when one is given), the state of the submitter is untouched and no request is sent.
\<close>

theorem unsupported_type_rejected_first:
  "(file_type f = file_type g \<and> file_size f = file_size g \<longrightarrow> validateFile f = validateFile g) \<and>
   (file_type f \<notin> set SUPPORTED_TYPES \<longrightarrow>
      validateFile f = Some ''Unsupported file type. Please upload JPG, PNG, or PDF.'' \<and>
      uploadFile p f net s =
        (s, if onUploadError p
            then [Call_onUploadError ''Unsupported file type. Please upload JPG, PNG, or PDF.'']
            else []) \<and>
      network_requests (snd (uploadFile p f net s)) = [])"
proof (intro conjI impI)
  assume "file_type f = file_type g \<and> file_size f = file_size g"
  then show "validateFile f = validateFile g"
    by (simp add: validateFile_def)
next
  assume unsupported: "file_type f \<notin> set SUPPORTED_TYPES"
  then show v: "validateFile f = Some ''Unsupported file type. Please upload JPG, PNG, or PDF.''"
    by (simp add: validateFile_def)
  show "uploadFile p f net s =
        (s, if onUploadError p
            then [Call_onUploadError ''Unsupported file type. Please upload JPG, PNG, or PDF.'']
            else [])"
    by (rule uploadFile_invalid [OF v])
  then show "network_requests (snd (uploadFile p f net s)) = []"
    by simp
qed

theorem unsupported_type_rejected_first_witness:
  "file_type \<lparr>file_name = ''notes.txt'', file_type = ''text/plain'', file_size = 30 * 1024 * 1024\<rparr>
     = file_type \<lparr>file_name = ''other.txt'', file_type = ''text/plain'', file_size = 30 * 1024 * 1024\<rparr> \<and>
   file_size \<lparr>file_name = ''notes.txt'', file_type = ''text/plain'', file_size = 30 * 1024 * 1024\<rparr>
     = file_size \<lparr>file_name = ''other.txt'', file_type = ''text/plain'', file_size = 30 * 1024 * 1024\<rparr> \<and>
   file_type \<lparr>file_name = ''notes.txt'', file_type = ''text/plain'', file_size = 30 * 1024 * 1024\<rparr>
     \<notin> set SUPPORTED_TYPES \<and>
   MAX_FILE_SIZE
     < file_size \<lparr>file_name = ''notes.txt'', file_type = ''text/plain'', file_size = 30 * 1024 * 1024\<rparr> \<and>
   validateFile \<lparr>file_name = ''notes.txt'', file_type = ''text/plain'', file_size = 30 * 1024 * 1024\<rparr>
     = validateFile \<lparr>file_name = ''other.txt'', file_type = ''text/plain'', file_size = 30 * 1024 * 1024\<rparr> \<and>
   uploadFile \<lparr>onUploadSuccess = True, onUploadError = True\<rparr>
      \<lparr>file_name = ''notes.txt'', file_type = ''text/plain'', file_size = 30 * 1024 * 1024\<rparr>
      (Rejected NonError)
      \<lparr>isDragging = False, isUploading = False, uploadProgress = []\<rparr>
     = (\<lparr>isDragging = False, isUploading = False, uploadProgress = []\<rparr>,
        [Call_onUploadError ''Unsupported file type. Please upload JPG, PNG, or PDF.''])"
  using unsupported_type_rejected_first
    [of "\<lparr>file_name = ''notes.txt'', file_type = ''text/plain'', file_size = 30 * 1024 * 1024\<rparr>"
        "\<lparr>file_name = ''other.txt'', file_type = ''text/plain'', file_size = 30 * 1024 * 1024\<rparr>"
        "\<lparr>onUploadSuccess = True, onUploadError = True\<rparr>"
        "Rejected NonError"
        "\<lparr>isDragging = False, isUploading = False, uploadProgress = []\<rparr>"]
  by (simp add: SUPPORTED_TYPES_def MAX_FILE_SIZE_def)

text \<open>
  C2, as the code has it. A file of a supported type is refused as too large exactly when
  its size is strictly greater than 20 MiB; it is then reported to the error callback and
  no request is sent. A file of exactly 20 MiB passes validation.
\<close>

theorem too_large_iff_above_limit:
  "file_type f \<in> set SUPPORTED_TYPES \<Longrightarrow>
     (validateFile f = Some ''File is too large. Maximum size is 20MB.''
        \<longleftrightarrow> file_size f > 20 * 1024 * 1024) \<and>
     (file_size f > 20 * 1024 * 1024 \<longrightarrow>
        uploadFile p f net s =
          (s, if onUploadError p
              then [Call_onUploadError ''File is too large. Maximum size is 20MB.'']
              else []) \<and>
        network_requests (snd (uploadFile p f net s)) = []) \<and>
     (file_size f \<le> 20 * 1024 * 1024 \<longrightarrow>
        validateFile f = None \<and> network_requests (snd (uploadFile p f net s)) = [f])"
proof (intro conjI impI)
  assume supported: "file_type f \<in> set SUPPORTED_TYPES"
  show "(validateFile f = Some ''File is too large. Maximum size is 20MB.'')
          = (file_size f > 20 * 1024 * 1024)"
    using supported by (simp add: validateFile_def MAX_FILE_SIZE_def)
  {
    assume "file_size f > 20 * 1024 * 1024"
    then have v: "validateFile f = Some ''File is too large. Maximum size is 20MB.''"
      using supported by (simp add: validateFile_def MAX_FILE_SIZE_def)
    show u: "uploadFile p f net s =
          (s, if onUploadError p
              then [Call_onUploadError ''File is too large. Maximum size is 20MB.'']
              else [])"
      by (rule uploadFile_invalid [OF v])
    show "network_requests (snd (uploadFile p f net s)) = []"
      by (simp add: u)
  }
  {
    assume "file_size f \<le> 20 * 1024 * 1024"
    then show v: "validateFile f = None"
      using supported by (simp add: validateFile_def MAX_FILE_SIZE_def)
    show "network_requests (snd (uploadFile p f net s)) = [f]"
      by (rule uploadFile_valid_requests [OF v])
  }
qed

theorem too_large_iff_above_limit_witness:
  "file_type \<lparr>file_name = ''report.pdf'', file_type = ''application/pdf'', file_size = 25 * 1024 * 1024\<rparr>
     \<in> set SUPPORTED_TYPES \<and>
   20 * 1024 * 1024
     < file_size \<lparr>file_name = ''report.pdf'', file_type = ''application/pdf'', file_size = 25 * 1024 * 1024\<rparr> \<and>
   validateFile \<lparr>file_name = ''report.pdf'', file_type = ''application/pdf'', file_size = 25 * 1024 * 1024\<rparr>
     = Some ''File is too large. Maximum size is 20MB.'' \<and>
   uploadFile \<lparr>onUploadSuccess = True, onUploadError = True\<rparr>
      \<lparr>file_name = ''report.pdf'', file_type = ''application/pdf'', file_size = 25 * 1024 * 1024\<rparr>
      (Rejected NonError)
      \<lparr>isDragging = False, isUploading = False, uploadProgress = []\<rparr>
     = (\<lparr>isDragging = False, isUploading = False, uploadProgress = []\<rparr>,
        [Call_onUploadError ''File is too large. Maximum size is 20MB.''])"
  using too_large_iff_above_limit
    [of "\<lparr>file_name = ''report.pdf'', file_type = ''application/pdf'', file_size = 25 * 1024 * 1024\<rparr>"
        "\<lparr>onUploadSuccess = True, onUploadError = True\<rparr>"
        "Rejected NonError"
        "\<lparr>isDragging = False, isUploading = False, uploadProgress = []\<rparr>"]
  by (simp add: SUPPORTED_TYPES_def)

text \<open>
  C2, as the claim states it, fails at a PNG of exactly 20 MiB: the size is not less
  than 20 MiB and the type is supported, yet validation returns no error and the file
  is posted.
\<close>

theorem exactly_20MiB_is_accepted:
  "20 * 1024 * 1024
     \<le> file_size \<lparr>file_name = ''scan.png'', file_type = ''image/png'', file_size = 20 * 1024 * 1024\<rparr> \<and>
   file_type \<lparr>file_name = ''scan.png'', file_type = ''image/png'', file_size = 20 * 1024 * 1024\<rparr>
     \<in> set SUPPORTED_TYPES \<and>
   validateFile \<lparr>file_name = ''scan.png'', file_type = ''image/png'', file_size = 20 * 1024 * 1024\<rparr>
     = None \<and>
   network_requests (snd (uploadFile \<lparr>onUploadSuccess = True, onUploadError = True\<rparr>
      \<lparr>file_name = ''scan.png'', file_type = ''image/png'', file_size = 20 * 1024 * 1024\<rparr>
      (Rejected NonError)
      \<lparr>isDragging = False, isUploading = False, uploadProgress = []\<rparr>))
     = [\<lparr>file_name = ''scan.png'', file_type = ''image/png'', file_size = 20 * 1024 * 1024\<rparr>]"
  by (simp add: validateFile_def uploadFile_def upload_try_def SUPPORTED_TYPES_def
      MAX_FILE_SIZE_def)

text \<open>
  C10. The MIME types validation accepts are exactly \<^verbatim>\<open>image/jpeg\<close>, \<^verbatim>\<open>image/png\<close>,
  \<^verbatim>\<open>image/jpg\<close> and \<^verbatim>\<open>application/pdf\<close>: a file passes validation if and only if its
  type is one of the four and its size is at most 20 MiB. A file of type
  \<^verbatim>\<open>image/jpg\<close> within the limit passes and is posted, once. The three standard types
  of JPEG, PNG and PDF are a proper subset of the accepted ones.
\<close>

theorem accepted_types_exactly_four:
  "set SUPPORTED_TYPES = {''image/jpeg'', ''image/png'', ''image/jpg'', ''application/pdf''} \<and>
   (validateFile f = None \<longleftrightarrow>
      file_type f \<in> {''image/jpeg'', ''image/png'', ''image/jpg'', ''application/pdf''} \<and>
      file_size f \<le> 20 * 1024 * 1024) \<and>
   (file_type f = ''image/jpg'' \<and> file_size f \<le> 20 * 1024 * 1024 \<longrightarrow>
      validateFile f = None \<and> network_requests (snd (uploadFile p f net s)) = [f]) \<and>
   {''image/jpeg'', ''image/png'', ''application/pdf''} \<subset> set SUPPORTED_TYPES"
proof (intro conjI impI)
  show "set SUPPORTED_TYPES = {''image/jpeg'', ''image/png'', ''image/jpg'', ''application/pdf''}"
    by (rule SUPPORTED_TYPES_set)
  show iff: "(validateFile f = None) =
      (file_type f \<in> {''image/jpeg'', ''image/png'', ''image/jpg'', ''application/pdf''} \<and>
       file_size f \<le> 20 * 1024 * 1024)"
    using validateFile_None_iff [of f] by (simp only: SUPPORTED_TYPES_set MAX_FILE_SIZE_def)
  let ?standard = "{''image/jpeg'', ''image/png'', ''application/pdf''}"
  have jpg_in: "''image/jpg'' \<in> set SUPPORTED_TYPES"
    and jpg_out: "''image/jpg'' \<notin> ?standard"
    and sub: "?standard \<subseteq> set SUPPORTED_TYPES"
    by (simp_all add: SUPPORTED_TYPES_def)
  have "?standard \<noteq> set SUPPORTED_TYPES"
  proof
    assume "?standard = set SUPPORTED_TYPES"
    with jpg_in have "''image/jpg'' \<in> ?standard"
      by (simp only:)
    with jpg_out show False
      by (rule notE)
  qed
  with sub show "?standard \<subset> set SUPPORTED_TYPES"
    by (rule psubsetI)
  assume jpg: "file_type f = ''image/jpg'' \<and> file_size f \<le> 20 * 1024 * 1024"
  with iff show v: "validateFile f = None"
    by simp
  show "network_requests (snd (uploadFile p f net s)) = [f]"
    by (rule uploadFile_valid_requests [OF v])
qed

theorem accepted_types_exactly_four_witness:
  "file_type \<lparr>file_name = ''photo.jpg'', file_type = ''image/jpg'', file_size = 1024 * 1024\<rparr>
     = ''image/jpg'' \<and>
   file_size \<lparr>file_name = ''photo.jpg'', file_type = ''image/jpg'', file_size = 1024 * 1024\<rparr>
     \<le> 20 * 1024 * 1024 \<and>
   validateFile \<lparr>file_name = ''photo.jpg'', file_type = ''image/jpg'', file_size = 1024 * 1024\<rparr>
     = None \<and>
   network_requests (snd (uploadFile \<lparr>onUploadSuccess = True, onUploadError = True\<rparr>
      \<lparr>file_name = ''photo.jpg'', file_type = ''image/jpg'', file_size = 1024 * 1024\<rparr>
      (Rejected NonError)
      \<lparr>isDragging = False, isUploading = False, uploadProgress = []\<rparr>))
     = [\<lparr>file_name = ''photo.jpg'', file_type = ''image/jpg'', file_size = 1024 * 1024\<rparr>]"
  using accepted_types_exactly_four
    [of "\<lparr>file_name = ''photo.jpg'', file_type = ''image/jpg'', file_size = 1024 * 1024\<rparr>"
        "\<lparr>onUploadSuccess = True, onUploadError = True\<rparr>"
        "Rejected NonError"
        "\<lparr>isDragging = False, isUploading = False, uploadProgress = []\<rparr>"]
  by simp

section \<open>Refreshing the collection\<close>

lemma fetchDocuments_ok:
  "mounted s \<Longrightarrow>
     fetchDocuments (Fulfilled (Response True st (Inr data))) s =
       Inr (s\<lparr>documents := data, loading := False, error := [], requests := requests s + 1\<rparr>)"
  by (simp add: fetchDocuments_def fetchDocuments_settle_def fetchDocuments_try_def
      fetchDocuments_start_def setLoading_def setError_def setDocuments_def)

lemma fetchDocuments_failed:
  "mounted s \<Longrightarrow> fetch_failed net \<Longrightarrow>
     fetchDocuments net s =
       Inr (s\<lparr>loading := False, error := failure_message net, requests := requests s + 1\<rparr>)"
proof (cases net)
  case (Rejected e)
  assume "mounted s"
  then show ?thesis
    unfolding Rejected
    by (cases e)
      (simp_all add: fetchDocuments_def fetchDocuments_settle_def fetchDocuments_try_def
        fetchDocuments_catch_def fetchDocuments_start_def setLoading_def setError_def)
next
  case (Fulfilled r)
  assume "mounted s" and "fetch_failed net"
  then show ?thesis
    unfolding Fulfilled
    by (simp add: fetchDocuments_def fetchDocuments_settle_def fetchDocuments_try_def
        fetchDocuments_catch_def fetchDocuments_start_def setLoading_def setError_def)
qed

lemma fetchDocuments_returns:
  "\<exists>s'. fetchDocuments net s = Inr s' \<and> selectedDocument s' = selectedDocument s \<and>
     mounted s' = mounted s"
  by (auto simp: fetchDocuments_def fetchDocuments_settle_def fetchDocuments_try_def
      fetchDocuments_catch_def fetchDocuments_start_def setLoading_def setError_def
      setDocuments_def split: fetch_outcome.splits sum.splits)

text \<open>
  C3. A refresh whose fetch fails, by a network error or by a response outside 2xx,
  returns with the collection exactly as it was and with the error state set to the
  message of the failure (which is not empty, unless the rejection carried an error with
  an empty message). A later refresh that succeeds empties the error state and puts
  the response in place of the collection.
\<close>

theorem failed_refresh_keeps_collection:
  assumes "mounted s" and "fetch_failed net"
  shows "\<exists>s'. fetchDocuments net s = Inr s' \<and>
           documents s' = documents s \<and>
           error s' = failure_message net \<and>
           (net \<noteq> Rejected (Error []) \<longrightarrow> error s' \<noteq> []) \<and>
           (\<exists>s''. fetchDocuments (Fulfilled (Response True st (Inr data))) s' = Inr s'' \<and>
                  error s'' = [] \<and> documents s'' = data)"
proof -
  let ?s' = "s\<lparr>loading := False, error := failure_message net, requests := requests s + 1\<rparr>"
  have first: "fetchDocuments net s = Inr ?s'"
    using assms by (rule fetchDocuments_failed)
  have "mounted ?s'"
    using assms(1) by simp
  then have second: "fetchDocuments (Fulfilled (Response True st (Inr data))) ?s' =
      Inr (?s'\<lparr>documents := data, loading := False, error := [], requests := requests ?s' + 1\<rparr>)"
    by (rule fetchDocuments_ok)
  have nonempty: "net \<noteq> Rejected (Error []) \<longrightarrow> failure_message net \<noteq> []"
    by (cases net rule: failure_message.cases) simp_all
  show ?thesis
    using first second nonempty by simp
qed

theorem failed_refresh_keeps_collection_witness:
  "mounted (setDocuments
      [\<lparr>doc_id = 1, filename = ''invoice.png'', status = ''PENDING'', documentType = None,
         extractedText = None, createdAt = ''2025-01-01T10:00:00Z'', processedAt = None\<rparr>]
      (mount \<lparr>refreshTrigger = None, onDocumentClick = False\<rparr>)) \<and>
   fetch_failed (Fulfilled (Response False ''Internal Server Error'' (Inl NonError))
      :: document list fetch_outcome) \<and>
   documents (projr (fetchDocuments
      (Fulfilled (Response False ''Internal Server Error'' (Inl NonError)))
      (setDocuments
        [\<lparr>doc_id = 1, filename = ''invoice.png'', status = ''PENDING'', documentType = None,
           extractedText = None, createdAt = ''2025-01-01T10:00:00Z'', processedAt = None\<rparr>]
        (mount \<lparr>refreshTrigger = None, onDocumentClick = False\<rparr>)))) =
      [\<lparr>doc_id = 1, filename = ''invoice.png'', status = ''PENDING'', documentType = None,
         extractedText = None, createdAt = ''2025-01-01T10:00:00Z'', processedAt = None\<rparr>] \<and>
   error (projr (fetchDocuments
      (Fulfilled (Response False ''Internal Server Error'' (Inl NonError)))
      (setDocuments
        [\<lparr>doc_id = 1, filename = ''invoice.png'', status = ''PENDING'', documentType = None,
           extractedText = None, createdAt = ''2025-01-01T10:00:00Z'', processedAt = None\<rparr>]
        (mount \<lparr>refreshTrigger = None, onDocumentClick = False\<rparr>)))) =
      ''Failed to fetch documents''"
  using failed_refresh_keeps_collection
    [of "setDocuments
      [\<lparr>doc_id = 1, filename = ''invoice.png'', status = ''PENDING'', documentType = None,
         extractedText = None, createdAt = ''2025-01-01T10:00:00Z'', processedAt = None\<rparr>]
      (mount \<lparr>refreshTrigger = None, onDocumentClick = False\<rparr>)"
        "Fulfilled (Response False ''Internal Server Error'' (Inl NonError))"
        "''OK''" "[]"]
  by (auto simp: mount_def refreshTrigger_effect_def fetchDocuments_start_def setLoading_def
      setDocuments_def)

text \<open>
  C4. A refresh that succeeds returns with the response as the collection, whatever
  the collection was: a document that was held and is not in the response is gone, and
  a second refresh with the same response leaves the collection, the loading flag, the
  error state and the selection as the first left them.
\<close>

theorem successful_refresh_replaces_collection:
  assumes "mounted s"
  shows "\<exists>s'. fetchDocuments (Fulfilled (Response True st (Inr data))) s = Inr s' \<and>
           documents s' = data \<and>
           (\<forall>d. d \<in> set (documents s) \<and> d \<notin> set data \<longrightarrow> d \<notin> set (documents s')) \<and>
           (\<exists>s''. fetchDocuments (Fulfilled (Response True st (Inr data))) s' = Inr s'' \<and>
                  documents s'' = documents s' \<and> loading s'' = loading s' \<and>
                  error s'' = error s' \<and> selectedDocument s'' = selectedDocument s')"
proof -
  let ?s' = "s\<lparr>documents := data, loading := False, error := [], requests := requests s + 1\<rparr>"
  have first: "fetchDocuments (Fulfilled (Response True st (Inr data))) s = Inr ?s'"
    using assms by (rule fetchDocuments_ok)
  have "mounted ?s'"
    using assms by simp
  then have second: "fetchDocuments (Fulfilled (Response True st (Inr data))) ?s' =
      Inr (?s'\<lparr>documents := data, loading := False, error := [], requests := requests ?s' + 1\<rparr>)"
    by (rule fetchDocuments_ok)
  show ?thesis
    using first second by simp
qed

theorem successful_refresh_replaces_collection_witness:
  "mounted (setDocuments
      [\<lparr>doc_id = 1, filename = ''invoice.png'', status = ''PENDING'', documentType = None,
         extractedText = None, createdAt = ''2025-01-01T10:00:00Z'', processedAt = None\<rparr>]
      (mount \<lparr>refreshTrigger = None, onDocumentClick = False\<rparr>)) \<and>
   documents (projr (fetchDocuments (Fulfilled (Response True ''OK'' (Inr [])))
      (setDocuments
        [\<lparr>doc_id = 1, filename = ''invoice.png'', status = ''PENDING'', documentType = None,
           extractedText = None, createdAt = ''2025-01-01T10:00:00Z'', processedAt = None\<rparr>]
        (mount \<lparr>refreshTrigger = None, onDocumentClick = False\<rparr>)))) = []"
  using successful_refresh_replaces_collection
    [of "setDocuments
      [\<lparr>doc_id = 1, filename = ''invoice.png'', status = ''PENDING'', documentType = None,
         extractedText = None, createdAt = ''2025-01-01T10:00:00Z'', processedAt = None\<rparr>]
      (mount \<lparr>refreshTrigger = None, onDocumentClick = False\<rparr>)"
        "''OK''" "[]"]
  by (auto simp: mount_def refreshTrigger_effect_def fetchDocuments_start_def setLoading_def
      setDocuments_def)

section \<open>The refresh signal\<close>

lemma truthy_iff: "truthy v \<longleftrightarrow> v \<noteq> None \<and> v \<noteq> Some 0"
  by (cases v) simp_all

lemma requests_fetchDocuments_start: "requests (fetchDocuments_start s) = requests s + 1"
  by (simp add: fetchDocuments_start_def)

lemma props_fetchDocuments_start: "props (fetchDocuments_start s) = props s"
  by (simp add: fetchDocuments_start_def setLoading_def)

lemma mounted_fetchDocuments_start: "mounted (fetchDocuments_start s) = mounted s"
  by (simp add: fetchDocuments_start_def setLoading_def)

lemma rerender_props: "mounted s \<Longrightarrow> props (rerender p s) = p"
  by (simp add: rerender_def refreshTrigger_effect_def props_fetchDocuments_start)

lemma rerender_mounted: "mounted (rerender p s) = mounted s"
  by (simp add: rerender_def refreshTrigger_effect_def mounted_fetchDocuments_start)

lemma rerender_requests:
  "mounted s \<Longrightarrow>
     requests (rerender p s) =
       requests s +
       (if refreshTrigger p \<noteq> refreshTrigger (props s) \<and> truthy (refreshTrigger p) then 1 else 0)"
  by (simp add: rerender_def refreshTrigger_effect_def requests_fetchDocuments_start)

text \<open>
  C6, as the code has it. A render in which the signal differs from its value at the
  last render starts exactly one refresh when the new value is a number other than
  zero, and none when the new value is zero or absent; a render with the same value
  as before starts none, so a repeated signal adds nothing.
\<close>

theorem trigger_refreshes_once_per_nonzero_change:
  assumes "mounted s"
  shows "(refreshTrigger p \<noteq> refreshTrigger (props s) \<and> refreshTrigger p \<noteq> None \<and>
            refreshTrigger p \<noteq> Some 0 \<longrightarrow>
            requests (rerender p s) = requests s + 1) \<and>
         (refreshTrigger p = None \<or> refreshTrigger p = Some 0 \<longrightarrow>
            requests (rerender p s) = requests s) \<and>
         (refreshTrigger p = refreshTrigger (props s) \<longrightarrow>
            requests (rerender p s) = requests s) \<and>
         requests (rerender p (rerender p s)) = requests (rerender p s)"
proof -
  have once: "requests (rerender p s) =
      requests s +
      (if refreshTrigger p \<noteq> refreshTrigger (props s) \<and> truthy (refreshTrigger p) then 1 else 0)"
    using assms by (rule rerender_requests)
  have "mounted (rerender p s)"
    using assms by (simp add: rerender_mounted)
  then have "requests (rerender p (rerender p s)) =
      requests (rerender p s) +
      (if refreshTrigger p \<noteq> refreshTrigger (props (rerender p s)) \<and> truthy (refreshTrigger p)
       then 1 else 0)"
    by (rule rerender_requests)
  then have again: "requests (rerender p (rerender p s)) = requests (rerender p s)"
    using assms by (simp add: rerender_props)
  show ?thesis
    using once again by (auto simp: truthy_iff)
qed

theorem trigger_refreshes_once_per_nonzero_change_witness:
  "mounted (mount \<lparr>refreshTrigger = Some 1, onDocumentClick = False\<rparr>) \<and>
   refreshTrigger \<lparr>refreshTrigger = Some 2, onDocumentClick = False\<rparr>
     \<noteq> refreshTrigger (props (mount \<lparr>refreshTrigger = Some 1, onDocumentClick = False\<rparr>)) \<and>
   requests (rerender \<lparr>refreshTrigger = Some 2, onDocumentClick = False\<rparr>
      (mount \<lparr>refreshTrigger = Some 1, onDocumentClick = False\<rparr>))
     = requests (mount \<lparr>refreshTrigger = Some 1, onDocumentClick = False\<rparr>) + 1 \<and>
   requests (rerender \<lparr>refreshTrigger = Some 2, onDocumentClick = False\<rparr>
      (rerender \<lparr>refreshTrigger = Some 2, onDocumentClick = False\<rparr>
        (mount \<lparr>refreshTrigger = Some 1, onDocumentClick = False\<rparr>)))
     = requests (mount \<lparr>refreshTrigger = Some 1, onDocumentClick = False\<rparr>) + 1"
  using trigger_refreshes_once_per_nonzero_change
    [of "mount \<lparr>refreshTrigger = Some 1, onDocumentClick = False\<rparr>"
        "\<lparr>refreshTrigger = Some 2, onDocumentClick = False\<rparr>"]
  by (simp add: mount_def refreshTrigger_effect_def fetchDocuments_start_def setLoading_def)

text \<open>
  C6, as the claim states it, fails at the zero value: the signal goes from 1 to 0, a
  new and distinct value, and no refresh is started.
\<close>

theorem change_to_zero_starts_no_refresh:
  "mounted (mount \<lparr>refreshTrigger = Some 1, onDocumentClick = False\<rparr>) \<and>
   refreshTrigger \<lparr>refreshTrigger = Some 0, onDocumentClick = False\<rparr>
     \<noteq> refreshTrigger (props (mount \<lparr>refreshTrigger = Some 1, onDocumentClick = False\<rparr>)) \<and>
   requests (rerender \<lparr>refreshTrigger = Some 0, onDocumentClick = False\<rparr>
      (mount \<lparr>refreshTrigger = Some 1, onDocumentClick = False\<rparr>))
     = requests (mount \<lparr>refreshTrigger = Some 1, onDocumentClick = False\<rparr>)"
  by (simp add: rerender_def mount_def refreshTrigger_effect_def fetchDocuments_start_def
      setLoading_def)

section \<open>The detail view\<close>

lemma handleRowClick_is_local:
  "mounted s \<Longrightarrow>
     requests (handleRowClick d s) = requests s \<and>
     documents (handleRowClick d s) = documents s \<and>
     selectedDocument (handleRowClick d s) = Some d"
  by (simp add: handleRowClick_def setSelectedDocument_def Let_def)

text \<open>
  C8 does not hold of the code. The collection holds document 1 as PROCESSING and its
  row is clicked: the click starts no request and stores the record of the row. A
  refresh then returns document 1 as COMPLETED while the detail view is open. The
  collection, and with it the row, now has the COMPLETED record; the detail view
  still has the PROCESSING record of the click, which is not the record the refresh
  produced for id 1.
\<close>

theorem open_detail_is_stale_after_refresh:
  "\<not> isl (fetchDocuments
      (Fulfilled (Response True ''OK''
        (Inr [\<lparr>doc_id = 1, filename = ''invoice.png'', status = ''COMPLETED'',
               documentType = Some ''invoice'', extractedText = Some ''Total: 42'',
               createdAt = ''2025-01-01T10:00:00Z'',
               processedAt = Some ''2025-01-01T10:00:07Z''\<rparr>])))
      (handleRowClick
        \<lparr>doc_id = 1, filename = ''invoice.png'', status = ''PROCESSING'', documentType = None,
           extractedText = None, createdAt = ''2025-01-01T10:00:00Z'', processedAt = None\<rparr>
        (setDocuments
          [\<lparr>doc_id = 1, filename = ''invoice.png'', status = ''PROCESSING'', documentType = None,
             extractedText = None, createdAt = ''2025-01-01T10:00:00Z'', processedAt = None\<rparr>]
          (mount \<lparr>refreshTrigger = None, onDocumentClick = False\<rparr>)))) \<and>
   documents (projr (fetchDocuments
      (Fulfilled (Response True ''OK''
        (Inr [\<lparr>doc_id = 1, filename = ''invoice.png'', status = ''COMPLETED'',
               documentType = Some ''invoice'', extractedText = Some ''Total: 42'',
               createdAt = ''2025-01-01T10:00:00Z'',
               processedAt = Some ''2025-01-01T10:00:07Z''\<rparr>])))
      (handleRowClick
        \<lparr>doc_id = 1, filename = ''invoice.png'', status = ''PROCESSING'', documentType = None,
           extractedText = None, createdAt = ''2025-01-01T10:00:00Z'', processedAt = None\<rparr>
        (setDocuments
          [\<lparr>doc_id = 1, filename = ''invoice.png'', status = ''PROCESSING'', documentType = None,
             extractedText = None, createdAt = ''2025-01-01T10:00:00Z'', processedAt = None\<rparr>]
          (mount \<lparr>refreshTrigger = None, onDocumentClick = False\<rparr>))))) =
     [\<lparr>doc_id = 1, filename = ''invoice.png'', status = ''COMPLETED'',
        documentType = Some ''invoice'', extractedText = Some ''Total: 42'',
        createdAt = ''2025-01-01T10:00:00Z'',
        processedAt = Some ''2025-01-01T10:00:07Z''\<rparr>] \<and>
   selectedDocument (projr (fetchDocuments
      (Fulfilled (Response True ''OK''
        (Inr [\<lparr>doc_id = 1, filename = ''invoice.png'', status = ''COMPLETED'',
               documentType = Some ''invoice'', extractedText = Some ''Total: 42'',
               createdAt = ''2025-01-01T10:00:00Z'',
               processedAt = Some ''2025-01-01T10:00:07Z''\<rparr>])))
      (handleRowClick
        \<lparr>doc_id = 1, filename = ''invoice.png'', status = ''PROCESSING'', documentType = None,
           extractedText = None, createdAt = ''2025-01-01T10:00:00Z'', processedAt = None\<rparr>
        (setDocuments
          [\<lparr>doc_id = 1, filename = ''invoice.png'', status = ''PROCESSING'', documentType = None,
             extractedText = None, createdAt = ''2025-01-01T10:00:00Z'', processedAt = None\<rparr>]
          (mount \<lparr>refreshTrigger = None, onDocumentClick = False\<rparr>))))) =
     Some \<lparr>doc_id = 1, filename = ''invoice.png'', status = ''PROCESSING'', documentType = None,
           extractedText = None, createdAt = ''2025-01-01T10:00:00Z'', processedAt = None\<rparr>"
  by (simp add: fetchDocuments_def fetchDocuments_settle_def fetchDocuments_try_def
      fetchDocuments_start_def handleRowClick_def setSelectedDocument_def setDocuments_def
      setLoading_def setError_def mount_def refreshTrigger_effect_def)

section \<open>Teardown\<close>

lemma fetchDocuments_settle_unmounted:
  "\<not> mounted s \<Longrightarrow> fetchDocuments_settle net s = Inr s"
  by (simp add: fetchDocuments_settle_def fetchDocuments_try_def fetchDocuments_catch_def
      setLoading_def setError_def setDocuments_def split: fetch_outcome.splits sum.splits)

lemma mount_interval: "interval (mount p) = Some 5000"
  by (simp add: mount_def Let_def)

text \<open>
  C9. While the component is mounted the interval timer is set, with a period of 5000
  ms, and a tick starts a request. Unmounting clears the timer: a tick no longer does
  anything. A response that arrives after the unmount, to a request that was in flight
  before it, runs the rest of \<^verbatim>\<open>fetchDocuments\<close> to its end without an exception
  leaving it, and leaves the whole state, the collection included, as the unmount
  left it.
\<close>

theorem teardown_cancels_timer_and_drops_late_response:
  "interval (mount p) = Some 5000 \<and>
   requests (tick (mount p)) = requests (mount p) + 1 \<and>
   interval (unmount s) = None \<and>
   tick (unmount s) = unmount s \<and>
   fetchDocuments_settle net (unmount (fetchDocuments_start s)) = Inr (unmount (fetchDocuments_start s)) \<and>
   fetchDocuments_settle net (unmount s) = Inr (unmount s) \<and>
   documents (unmount s) = documents s"
proof (intro conjI)
  show "interval (mount p) = Some 5000"
    by (rule mount_interval)
  show "requests (tick (mount p)) = requests (mount p) + 1"
    by (simp add: tick_def mount_interval requests_fetchDocuments_start)
  show "interval (unmount s) = None"
    by (simp add: unmount_def)
  show "tick (unmount s) = unmount s"
    by (simp add: tick_def unmount_def)
  have "\<not> mounted (unmount t)" for t
    by (simp add: unmount_def)
  then show "fetchDocuments_settle net (unmount (fetchDocuments_start s)) =
      Inr (unmount (fetchDocuments_start s))"
    and "fetchDocuments_settle net (unmount s) = Inr (unmount s)"
    by (simp_all add: fetchDocuments_settle_unmounted)
  show "documents (unmount s) = documents s"
    by (simp add: unmount_def)
qed

section \<open>From an upload to the list\<close>

lemma App_DocumentList_props_const: "App_DocumentList_props a = App_DocumentList_props b"
  by (simp add: App_DocumentList_props_def)

text \<open>
  C1 does not hold of the code. A 1 MiB PNG is uploaded and the server answers 201 with
  the new record: \<^verbatim>\<open>uploadFile\<close> posts the file and calls \<^verbatim>\<open>onUploadSuccess\<close>, which
  in \<^verbatim>\<open>App\<close> puts the record in front of a list of its own and empties its error.
  \<^verbatim>\<open>App\<close> renders \<^verbatim>\<open>DocumentList\<close> without a \<^verbatim>\<open>refreshTrigger\<close>, before and after:
  the render that follows the upload starts no request, and the list has issued the
  one request of its mount and no other.
\<close>

theorem upload_success_starts_no_refresh:
  "snd (uploadFile (App_FileUpload_props \<lparr>app_documents = [], app_error = []\<rparr>)
      \<lparr>file_name = ''scan.png'', file_type = ''image/png'', file_size = 1024 * 1024\<rparr>
      (Fulfilled (Response True ''Created''
        (Inr \<lparr>doc_id = 7, filename = ''scan.png'', status = ''PENDING'', documentType = None,
               extractedText = None, createdAt = ''2025-01-01T10:00:00Z'', processedAt = None\<rparr>)))
      \<lparr>isDragging = False, isUploading = False, uploadProgress = []\<rparr>)
     = [POST_documents
          \<lparr>file_name = ''scan.png'', file_type = ''image/png'', file_size = 1024 * 1024\<rparr>,
        Call_onUploadSuccess
          \<lparr>doc_id = 7, filename = ''scan.png'', status = ''PENDING'', documentType = None,
             extractedText = None, createdAt = ''2025-01-01T10:00:00Z'', processedAt = None\<rparr>,
        SetTimeout_reset 2000] \<and>
   App_callbacks
     [POST_documents
        \<lparr>file_name = ''scan.png'', file_type = ''image/png'', file_size = 1024 * 1024\<rparr>,
      Call_onUploadSuccess
        \<lparr>doc_id = 7, filename = ''scan.png'', status = ''PENDING'', documentType = None,
           extractedText = None, createdAt = ''2025-01-01T10:00:00Z'', processedAt = None\<rparr>,
      SetTimeout_reset 2000]
     \<lparr>app_documents = [], app_error = []\<rparr>
     = \<lparr>app_documents =
          [\<lparr>doc_id = 7, filename = ''scan.png'', status = ''PENDING'', documentType = None,
             extractedText = None, createdAt = ''2025-01-01T10:00:00Z'', processedAt = None\<rparr>],
        app_error = []\<rparr> \<and>
   refreshTrigger (App_DocumentList_props
     \<lparr>app_documents =
        [\<lparr>doc_id = 7, filename = ''scan.png'', status = ''PENDING'', documentType = None,
           extractedText = None, createdAt = ''2025-01-01T10:00:00Z'', processedAt = None\<rparr>],
      app_error = []\<rparr>) = None \<and>
   requests (mount (App_DocumentList_props \<lparr>app_documents = [], app_error = []\<rparr>)) = 1 \<and>
   requests (rerender
     (App_DocumentList_props
       \<lparr>app_documents =
          [\<lparr>doc_id = 7, filename = ''scan.png'', status = ''PENDING'', documentType = None,
             extractedText = None, createdAt = ''2025-01-01T10:00:00Z'', processedAt = None\<rparr>],
        app_error = []\<rparr>)
     (mount (App_DocumentList_props \<lparr>app_documents = [], app_error = []\<rparr>))) = 1"
  by (simp add: uploadFile_def validateFile_def upload_try_def SUPPORTED_TYPES_def
      MAX_FILE_SIZE_def App_FileUpload_props_def App_DocumentList_props_def
      handleUploadSuccess_def rerender_def mount_def refreshTrigger_effect_def
      fetchDocuments_start_def setLoading_def)

end
